theory Spec2Isabelle
  imports Complex_Main "HOL-Library.Multiset"
begin

section \<open>Cells (cell.py)\<close>

text \<open>
  A score is a Python number or \<open>math.inf\<close>.  Python floats are idealised as real
  numbers; \<open>PInf\<close> is \<open>inf\<close>.  \<open>score_less\<close> is Python's \<open><\<close> and
  \<open>score_add\<close> is Python's \<open>+\<close> with a finite right operand.
\<close>

datatype score = Num real | PInf

fun score_less :: "score \<Rightarrow> score \<Rightarrow> bool" where
  "score_less (Num a) (Num b) = (a < b)"
| "score_less (Num a) PInf = True"
| "score_less PInf b = False"

fun score_add :: "score \<Rightarrow> real \<Rightarrow> score" where
  "score_add (Num a) d = Num (a + d)"
| "score_add PInf d = PInf"

type_synonym colour = "nat \<times> nat \<times> nat"

text \<open>
  A reference to a \<open>Cell\<close> object.  Every cell object is created once, by
  \<open>Grid._create_grid\<close>, and lives at one position of the list of lists
  \<open>Grid._grid\<close>; the object is named by that position (index of the row list, index
  inside the row list).  Object identity (\<open>is\<close>, and \<open>==\<close>, \<open>in\<close> and hashing,
  which \<open>Cell\<close> does not override) is equality of references.
\<close>

type_synonym ref = "nat \<times> nat"

record cell =
  was_block :: bool
  row :: int
  col :: int
  f_score :: score
  g_score :: score
  last_node :: "ref option"
  walkable :: bool
  color :: colour
  is_start_node :: bool
  is_end_node :: bool

definition white :: colour where
  "white = (255, 255, 255)"

definition black :: colour where
  "black = (0, 0, 0)"

text \<open>The property setters of \<open>Cell\<close>.\<close>

definition set_color :: "cell \<Rightarrow> colour \<Rightarrow> cell" where
  "set_color c new_color = c\<lparr>color := new_color\<rparr>"

definition set_walkable :: "cell \<Rightarrow> bool \<Rightarrow> cell" where
  "set_walkable c is_walkable =
     (set_color c (if \<not> is_walkable then black else white))\<lparr>walkable := is_walkable\<rparr>"

definition set_is_start_node :: "cell \<Rightarrow> bool \<Rightarrow> cell" where
  "set_is_start_node c start_node =
     (if \<not> start_node
      then set_color c (if was_block c then black else white)
      else set_color (c\<lparr>was_block := \<not> walkable c\<rparr>)
             (if start_node then (106, 255, 20) else white))
     \<lparr>is_start_node := start_node\<rparr>"

definition set_is_end_node :: "cell \<Rightarrow> bool \<Rightarrow> cell" where
  "set_is_end_node c end_node =
     (if \<not> end_node
      then set_color c (if was_block c then black else white)
      else set_color (c\<lparr>was_block := \<not> walkable c\<rparr>)
             (if end_node then (247, 241, 47) else white))
     \<lparr>is_end_node := end_node\<rparr>"

text \<open>
  \<open>Cell.__init__\<close>: the assignments in the order of the source, the properties through
  their setters.  The record the first setter is applied to holds the values assigned by
  then; its other fields are overwritten before \<open>__init__\<close> returns.
\<close>

definition Cell_init :: "int \<Rightarrow> int \<Rightarrow> cell" where
  "Cell_init r c =
     (let c0 = \<lparr>was_block = False, row = r, col = c, f_score = PInf, g_score = PInf,
                 last_node = None, walkable = True, color = white,
                 is_start_node = False, is_end_node = False\<rparr>;
          c1 = set_walkable c0 True;
          c2 = set_color c1 (255, 255, 255);
          c3 = set_is_start_node c2 False
      in set_is_end_node c3 False)"

text \<open>\<open>Cell.is_node_next_to_current_node\<close> and \<open>Cell.get_weight_score\<close>.\<close>

definition is_node_next_to_current_node :: "cell \<Rightarrow> cell \<Rightarrow> bool" where
  "is_node_next_to_current_node self c \<longleftrightarrow>
     row c = row self \<and> col c + 1 = col self \<or>
     row c = row self \<and> col c - 1 = col self \<or>
     row c - 1 = row self \<and> col c = col self \<or>
     row c + 1 = row self \<and> col c = col self"

definition get_weight_score :: "cell \<Rightarrow> cell \<Rightarrow> real" where
  "get_weight_score self c =
     (if is_node_next_to_current_node self c then 1 else 14 / 10) * 10"

text \<open>\<open>Cell.__lt__\<close>, for two cells.\<close>

definition cell_lt :: "cell \<Rightarrow> cell \<Rightarrow> bool" where
  "cell_lt self node = score_less (f_score self) (f_score node)"

section \<open>The grid (pathfinder.py)\<close>

datatype error = IndexError

record grid =
  running :: bool
  rows :: int
  cols :: int
  cells :: "cell list list"
  start_node :: ref
  end_node :: ref
  erase_block_on :: bool
  is_creating_blocks :: bool
  is_erasing_blocks :: bool
  dragging_start_flag :: bool
  dragging_end_flag :: bool
  disable_events :: bool

text \<open>
  Python's list indexing \<open>xs[i]\<close>: a negative index counts from the end, an index out
  of range raises \<open>IndexError\<close>.  The result is the position read.
\<close>

definition py_index :: "'a list \<Rightarrow> int \<Rightarrow> error + nat" where
  "py_index xs i =
     (let n = int (length xs); j = (if i < 0 then n + i else i)
      in if 0 \<le> j \<and> j < n then Inr (nat j) else Inl IndexError)"

text \<open>\<open>self._grid[row][col]\<close>: the cell object found there, or the error raised.\<close>

definition grid_at :: "grid \<Rightarrow> int \<Rightarrow> int \<Rightarrow> error + ref" where
  "grid_at g r c =
     (case py_index (cells g) r of
        Inl e \<Rightarrow> Inl e
      | Inr i \<Rightarrow> (case py_index (cells g ! i) c of
                   Inl e \<Rightarrow> Inl e
                 | Inr j \<Rightarrow> Inr (i, j)))"

text \<open>Reading the object behind a reference, and assigning to its attributes.\<close>

definition deref :: "grid \<Rightarrow> ref \<Rightarrow> cell" where
  "deref g p = cells g ! fst p ! snd p"

definition upd :: "grid \<Rightarrow> ref \<Rightarrow> (cell \<Rightarrow> cell) \<Rightarrow> grid" where
  "upd g p f =
     g\<lparr>cells := (cells g)[fst p := (cells g ! fst p)[snd p := f (deref g p)]]\<rparr>"

text \<open>\<open>Grid._create_grid\<close> and \<open>Grid.__init__\<close>, for the dimensions given.\<close>

definition create_grid :: "int \<Rightarrow> int \<Rightarrow> cell list list" where
  "create_grid nrows ncols =
     map (\<lambda>r. map (\<lambda>c. Cell_init (int r) (int c)) [0..<nat ncols]) [0..<nat nrows]"

text \<open>
  The source fixes the dimensions by the module constants \<open>_ROWS, _COLS = 50, 50\<close> and
  copies them into \<open>self._rows\<close> and \<open>self._cols\<close>; here they are arguments.
  The tuple assignment of line 23 runs its two setters left to right.
\<close>

definition Grid_init :: "int \<Rightarrow> int \<Rightarrow> error + grid" where
  "Grid_init nrows ncols =
     (let g0 = \<lparr>running = True, rows = nrows, cols = ncols,
                 cells = create_grid nrows ncols, start_node = (0, 0), end_node = (0, 0),
                 erase_block_on = False, is_creating_blocks = False,
                 is_erasing_blocks = False, dragging_start_flag = False,
                 dragging_end_flag = False, disable_events = False\<rparr>
      in case grid_at g0 0 0 of
           Inl e \<Rightarrow> Inl e
         | Inr s \<Rightarrow>
             (case grid_at g0 (nrows - 1) (ncols - 1) of
                Inl e \<Rightarrow> Inl e
              | Inr t \<Rightarrow>
                  (let g1 = g0\<lparr>start_node := s, end_node := t\<rparr>;
                       g2 = upd g1 (start_node g1) (\<lambda>c. set_is_start_node c True);
                       g3 = upd g2 (end_node g2) (\<lambda>c. set_is_end_node c True)
                   in Inr g3)))"

text \<open>
  \<open>Grid._reset\<close>.  The loop \<open>for cell in self\<close> visits every cell of every row once
  and changes only the cell it visits.
\<close>

definition reset_cell :: "bool \<Rightarrow> cell \<Rightarrow> cell" where
  "reset_cell reset_all_blocks c =
     (let c1 = (if \<not> is_start_node c \<and> \<not> is_end_node c
                then (let c' = set_walkable c (if reset_all_blocks then True else walkable c)
                      in set_color c' (if \<not> reset_all_blocks \<and> walkable c' then white
                                       else color c'))
                else c)
      in c1\<lparr>last_node := None\<rparr>)"

definition reset :: "grid \<Rightarrow> bool \<Rightarrow> grid" where
  "reset g reset_all_blocks = g\<lparr>cells := map (map (reset_cell reset_all_blocks)) (cells g)\<rparr>"

text \<open>\<open>Grid._compute_diagonal_distance\<close>.\<close>

definition compute_diagonal_distance :: "grid \<Rightarrow> cell \<Rightarrow> real" where
  "compute_diagonal_distance g current_node =
     (let delta_x = \<bar>row current_node - row (deref g (end_node g))\<bar>;
          delta_y = \<bar>col current_node - col (deref g (end_node g))\<bar>
      in real_of_int (min delta_x delta_y) * sqrt 2 + real_of_int \<bar>delta_x - delta_y\<bar>)"

text \<open>
  The estimate as the specification words it, between two cells, with its factor of 10.
\<close>

definition spec_estimate :: "cell \<Rightarrow> cell \<Rightarrow> real" where
  "spec_estimate a b =
     (let dx = \<bar>row a - row b\<bar>; dy = \<bar>col a - col b\<bar>
      in (real_of_int (min dx dy) * sqrt 2 + real_of_int \<bar>dx - dy\<bar>) * 10)"

text \<open>Sequencing of steps that may raise: the first error ends the run.\<close>

definition then_do :: "error + 'a \<Rightarrow> ('a \<Rightarrow> error + 'b) \<Rightarrow> error + 'b" where
  "then_do m f = (case m of Inl e \<Rightarrow> Inl e | Inr x \<Rightarrow> f x)"

text \<open>
  \<open>Grid._is_valid_coordinate\<close>, \<open>Grid.add_valid_neighbor\<close> and
  \<open>Grid._find_neighbors\<close>.  \<open>and\<close> evaluates its right operand only when the
  left one holds, so the grid is indexed only at a valid coordinate; the two reads of
  \<open>self._grid[row][col]\<close> find the same object.
\<close>

definition is_valid_coordinate :: "grid \<Rightarrow> int \<Rightarrow> int \<Rightarrow> bool" where
  "is_valid_coordinate g r c \<longleftrightarrow> (0 \<le> r \<and> r < rows g) \<and> (0 \<le> c \<and> c < cols g)"

definition add_valid_neighbor :: "grid \<Rightarrow> int \<Rightarrow> int \<Rightarrow> ref list \<Rightarrow> error + ref list" where
  "add_valid_neighbor g r c neighbors =
     (if is_valid_coordinate g r c
      then then_do (grid_at g r c)
             (\<lambda>p. if walkable (deref g p) then Inr (neighbors @ [p]) else Inr neighbors)
      else Inr neighbors)"

definition find_neighbors :: "grid \<Rightarrow> cell \<Rightarrow> error + ref list" where
  "find_neighbors g cell =
     then_do (add_valid_neighbor g (row cell + 1) (col cell + 1) []) (\<lambda>n1.
     then_do (add_valid_neighbor g (row cell) (col cell + 1) n1) (\<lambda>n2.
     then_do (add_valid_neighbor g (row cell) (col cell - 1) n2) (\<lambda>n3.
     then_do (add_valid_neighbor g (row cell - 1) (col cell + 1) n3) (\<lambda>n4.
     then_do (add_valid_neighbor g (row cell - 1) (col cell) n4) (\<lambda>n5.
     then_do (add_valid_neighbor g (row cell + 1) (col cell) n5) (\<lambda>n6.
     then_do (add_valid_neighbor g (row cell + 1) (col cell - 1) n6) (\<lambda>n7.
     add_valid_neighbor g (row cell - 1) (col cell - 1) n7)))))))"

text \<open>The eight candidate positions around a cell, in the order of the source.\<close>

definition offsets :: "(int \<times> int) list" where
  "offsets = [(1, 1), (0, 1), (0, -1), (-1, 1), (-1, 0), (1, 0), (1, -1), (-1, -1)]"

text \<open>\<open>Grid._set_up_flag_nodes\<close>.\<close>

definition set_up_flag_nodes :: "grid \<Rightarrow> grid" where
  "set_up_flag_nodes g =
     (let g1 = upd g (start_node g) (\<lambda>c. set_walkable c True);
          g2 = upd g1 (end_node g1) (\<lambda>c. set_walkable c True);
          g3 = upd g2 (start_node g2) (\<lambda>c. set_is_start_node c True)
      in upd g3 (end_node g3) (\<lambda>c. set_is_end_node c True))"

section \<open>The open set: \<open>queue.PriorityQueue\<close>\<close>

text \<open>
  \<open>PriorityQueue.put\<close> and \<open>PriorityQueue.get\<close> call \<open>heappush\<close> and
  \<open>heappop\<close> of the standard library's \<open>heapq\<close> on the list \<open>self.queue\<close>, and
  \<open>empty()\<close> tests that list's length.  The functions below follow \<open>heapq\<close>'s
  \<open>_siftdown\<close>, \<open>_siftup\<close>, \<open>heappush\<close> and \<open>heappop\<close> statement by
  statement; \<open>lt\<close> is the comparison \<open><\<close> of the items.  Every index these
  functions read is in range when \<open>pos\<close> is.
\<close>

function siftdown_loop ::
  "('a \<Rightarrow> 'a \<Rightarrow> bool) \<Rightarrow> 'a \<Rightarrow> nat \<Rightarrow> 'a list \<Rightarrow> nat \<Rightarrow> 'a list" where
  "siftdown_loop lt newitem startpos heap pos =
     (if pos > startpos
      then (let parentpos = (pos - 1) div 2; parent = heap ! parentpos
            in if lt newitem parent
               then siftdown_loop lt newitem startpos (heap[pos := parent]) parentpos
               else heap[pos := newitem])
      else heap[pos := newitem])"
  by pat_completeness auto
termination
  by (relation "measure (\<lambda>(lt, newitem, startpos, heap, pos). pos)") auto

definition siftdown :: "('a \<Rightarrow> 'a \<Rightarrow> bool) \<Rightarrow> 'a list \<Rightarrow> nat \<Rightarrow> nat \<Rightarrow> 'a list" where
  "siftdown lt heap startpos pos = siftdown_loop lt (heap ! pos) startpos heap pos"

function siftup_loop ::
  "('a \<Rightarrow> 'a \<Rightarrow> bool) \<Rightarrow> nat \<Rightarrow> 'a list \<Rightarrow> nat \<Rightarrow> nat \<Rightarrow> 'a list \<times> nat" where
  "siftup_loop lt endpos heap pos childpos =
     (if childpos < endpos
      then (let rightpos = childpos + 1;
                childpos' = (if rightpos < endpos \<and> \<not> lt (heap ! childpos) (heap ! rightpos)
                             then rightpos else childpos)
            in siftup_loop lt endpos (heap[pos := heap ! childpos']) childpos'
                 (2 * childpos' + 1))
      else (heap, pos))"
  by pat_completeness auto
termination
  by (relation "measure (\<lambda>(lt, endpos, heap, pos, childpos). endpos - childpos)")
    (auto simp: Let_def)

definition siftup :: "('a \<Rightarrow> 'a \<Rightarrow> bool) \<Rightarrow> 'a list \<Rightarrow> nat \<Rightarrow> 'a list" where
  "siftup lt heap pos =
     (let endpos = length heap; startpos = pos; newitem = heap ! pos;
          (heap', pos') = siftup_loop lt endpos heap pos (2 * pos + 1)
      in siftdown lt (heap'[pos' := newitem]) startpos pos')"

definition heappush :: "('a \<Rightarrow> 'a \<Rightarrow> bool) \<Rightarrow> 'a list \<Rightarrow> 'a \<Rightarrow> 'a list" where
  "heappush lt heap item =
     (let heap' = heap @ [item] in siftdown lt heap' 0 (length heap' - 1))"

text \<open>\<open>heap.pop()\<close> on an empty list raises \<open>IndexError\<close>.\<close>

definition heappop :: "('a \<Rightarrow> 'a \<Rightarrow> bool) \<Rightarrow> 'a list \<Rightarrow> error + 'a \<times> 'a list" where
  "heappop lt heap =
     (if heap = [] then Inl IndexError
      else (let lastelt = last heap; heap' = butlast heap
            in if heap' \<noteq> []
               then (let returnitem = heap' ! 0
                     in Inr (returnitem, siftup lt (heap'[0 := lastelt]) 0))
               else Inr (lastelt, heap')))"

declare siftdown_loop.simps [simp del] siftup_loop.simps [simp del]

section \<open>The search (\<open>Grid.find_optimal_path\<close>)\<close>

text \<open>
  The local variables of \<open>find_optimal_path\<close> beside the grid: the list
  \<open>open_set.queue\<close> and the set \<open>closed_set\<close>, both of references to cells.
\<close>

record search_state =
  sgrid :: grid
  open_set :: "ref list"
  closed_set :: "ref set"

text \<open>
  \<open>a < b\<close> for two cells in the queue: \<open>Cell.__lt__\<close> on the scores the two
  objects hold when the comparison is made.
\<close>

definition ref_lt :: "grid \<Rightarrow> ref \<Rightarrow> ref \<Rightarrow> bool" where
  "ref_lt g a b = cell_lt (deref g a) (deref g b)"

text \<open>
  \<open>Grid._is_optimal_neighbor\<close>: the grid after its assignments, and the value
  returned.
\<close>

definition is_optimal_neighbor ::
  "grid \<Rightarrow> ref \<Rightarrow> ref \<Rightarrow> ref list \<Rightarrow> ref set \<Rightarrow> grid \<times> bool" where
  "is_optimal_neighbor g neighbor current_node queue closed_nodes =
     (let tentative_g_score = score_add (g_score (deref g current_node)) 1
      in if neighbor \<notin> closed_nodes \<and>
            (score_less tentative_g_score (g_score (deref g neighbor)) \<or>
             neighbor \<notin> set queue)
         then (let new_g = score_add (g_score (deref g current_node)) 1;
                   g1 = upd g neighbor
                          (\<lambda>c. c\<lparr>last_node := Some current_node, g_score := new_g\<rparr>);
                   g2 = upd g1 neighbor
                          (\<lambda>c. c\<lparr>f_score := score_add (g_score c)
                                                 (compute_diagonal_distance g1 c)\<rparr>)
               in (g2, True))
         else (g, False))"

text \<open>The body of the loop over the neighbours (lines 252 to 255), for one neighbour.\<close>

definition visit_neighbor :: "ref \<Rightarrow> search_state \<Rightarrow> ref \<Rightarrow> search_state" where
  "visit_neighbor current_node st neighbor =
     (let (g1, optimal) =
            is_optimal_neighbor (sgrid st) neighbor current_node (open_set st) (closed_set st)
      in if optimal \<and> neighbor \<notin> set (open_set st)
         then st\<lparr>sgrid := upd g1 neighbor (\<lambda>c. set_color c (216, 0, 245)),
                 open_set := heappush (ref_lt g1) (open_set st) neighbor\<rparr>
         else st\<lparr>sgrid := g1\<rparr>)"

text \<open>Lines 244 to 246: the cell taken from the open set, coloured and closed.\<close>

definition pop_current :: "search_state \<Rightarrow> error + ref \<times> search_state" where
  "pop_current st =
     then_do (heappop (ref_lt (sgrid st)) (open_set st)) (\<lambda>(current_node, queue).
       Inr (current_node,
            \<lparr>sgrid = upd (sgrid st) current_node
                       (\<lambda>c. set_color c (if is_start_node c then color c else (255, 0, 0))),
             open_set = queue,
             closed_set = insert current_node (closed_set st)\<rparr>))"

text \<open>The test of line 247.\<close>

definition at_end_node :: "grid \<Rightarrow> ref \<Rightarrow> bool" where
  "at_end_node g current_node \<longleftrightarrow>
     row (deref g current_node) = row (deref g (end_node g)) \<and>
     col (deref g current_node) = col (deref g (end_node g))"

text \<open>Lines 251 to 255: the list of neighbours is computed once, then visited in order.\<close>

definition expand :: "ref \<Rightarrow> search_state \<Rightarrow> error + search_state" where
  "expand current_node st =
     then_do (find_neighbors (sgrid st) (deref (sgrid st) current_node))
       (\<lambda>neighbors. Inr (foldl (visit_neighbor current_node) st neighbors))"

text \<open>
  \<open>Grid._reconstruct_path\<close>: the walk along \<open>last_node\<close> until \<open>None\<close>.  It
  returns nothing and collects nothing; it colours the cells it passes.  The walk does
  not end on a chain of predecessors that runs into a cycle: \<open>None\<close> is that case.
\<close>

partial_function (option) reconstruct_path :: "grid \<Rightarrow> ref option \<Rightarrow> grid option" where
  "reconstruct_path g node =
     (case node of
        None \<Rightarrow> Some g
      | Some p \<Rightarrow>
          reconstruct_path
            (upd g p (\<lambda>c. set_color c (if \<not> is_start_node c then (47, 234, 247) else color c)))
            (last_node (deref g p)))"

text \<open>
  One iteration of the \<open>while\<close> loop of line 243.  No event arrives while the search
  runs (\<open>self._handle_events()\<close> finds the event queue empty), so \<open>self._running\<close>
  stays as it is.
\<close>

datatype loop_result = Continue search_state | Return search_state | Raise error | Diverge

definition loop_body :: "search_state \<Rightarrow> loop_result" where
  "loop_body st =
     (case pop_current st of
        Inl e \<Rightarrow> Raise e
      | Inr (current_node, st1) \<Rightarrow>
          if at_end_node (sgrid st1) current_node
          then (case reconstruct_path (sgrid st1) (Some current_node) of
                  None \<Rightarrow> Diverge
                | Some g2 \<Rightarrow>
                    Return (st1\<lparr>sgrid := upd g2 current_node (\<lambda>c. set_is_end_node c True)\<rparr>))
          else (case expand current_node st1 of
                  Inl e \<Rightarrow> Raise e
                | Inr st2 \<Rightarrow> Continue st2))"

text \<open>Lines 235 to 241: the state in which the loop is entered.\<close>

definition search_setup :: "grid \<Rightarrow> search_state" where
  "search_setup g =
     (let g1 = set_up_flag_nodes g;
          g2 = reset g1 False;
          g3 = upd g2 (start_node g2) (\<lambda>c. c\<lparr>g_score := Num 0\<rparr>);
          queue = heappush (ref_lt g3) [] (start_node g3);
          g4 = upd g3 (start_node g3)
                 (\<lambda>c. c\<lparr>f_score := Num (compute_diagonal_distance g3 c)\<rparr>)
      in \<lparr>sgrid = g4, open_set = queue, closed_set = {}\<rparr>)"

text \<open>
  The state at the head of the loop after \<open>n\<close> iterations, when the loop runs that
  many without leaving.
\<close>

fun loop_prefix :: "nat \<Rightarrow> search_state \<Rightarrow> search_state option" where
  "loop_prefix 0 st = Some st"
| "loop_prefix (Suc n) st =
     (if open_set st \<noteq> [] \<and> running (sgrid st)
      then (case loop_body st of Continue st' \<Rightarrow> loop_prefix n st' | _ \<Rightarrow> None)
      else None)"

section \<open>Editing the grid with the mouse and the keyboard\<close>

text \<open>
  The handlers take the grid coordinate under the mouse, which the source computes from
  the pixel position of the pointer.
\<close>

definition is_a_flag_node :: "grid \<Rightarrow> int \<Rightarrow> int \<Rightarrow> error + bool" where
  "is_a_flag_node g r c =
     then_do (grid_at g r c) (\<lambda>p. Inr (is_start_node (deref g p) \<or> is_end_node (deref g p)))"

definition able_to_create_blocks :: "grid \<Rightarrow> int \<Rightarrow> int \<Rightarrow> error + bool" where
  "able_to_create_blocks g r c =
     (if erase_block_on g then Inr False
      else then_do (grid_at g r c) (\<lambda>p.
             if walkable (deref g p)
             then then_do (is_a_flag_node g r c) (\<lambda>flag. Inr (\<not> flag))
             else Inr False))"

text \<open>\<open>flag and not self._is_a_flag_node(row, col)\<close>.\<close>

definition and_not_flag_node :: "bool \<Rightarrow> grid \<Rightarrow> int \<Rightarrow> int \<Rightarrow> error + bool" where
  "and_not_flag_node flag g r c =
     (if flag then then_do (is_a_flag_node g r c) (\<lambda>b. Inr (\<not> b)) else Inr False)"

definition dragging_flag_node :: "grid \<Rightarrow> string \<Rightarrow> int \<Rightarrow> int \<Rightarrow> error + grid" where
  "dragging_flag_node g dragging_node r c =
     (if dragging_node = ''drag start flag''
      then (let g1 = upd g (start_node g) (\<lambda>x. set_is_start_node x False)
            in then_do (grid_at g1 r c) (\<lambda>p.
                 let g2 = g1\<lparr>start_node := p\<rparr>
                 in Inr (upd g2 (start_node g2) (\<lambda>x. set_is_start_node x True))))
      else (let g1 = upd g (end_node g) (\<lambda>x. set_is_end_node x False)
            in then_do (grid_at g1 r c) (\<lambda>p.
                 let g2 = g1\<lparr>end_node := p\<rparr>
                 in Inr (upd g2 (end_node g2) (\<lambda>x. set_is_end_node x True)))))"

definition handle_mouse_motions_events :: "grid \<Rightarrow> int \<Rightarrow> int \<Rightarrow> error + grid" where
  "handle_mouse_motions_events g r c =
     then_do (and_not_flag_node (dragging_start_flag g) g r c) (\<lambda>b1.
       if b1 then dragging_flag_node g ''drag start flag'' r c
       else then_do (and_not_flag_node (dragging_end_flag g) g r c) (\<lambda>b2.
         if b2 then dragging_flag_node g ''drag end flag'' r c
         else then_do (and_not_flag_node (is_erasing_blocks g) g r c) (\<lambda>b3.
           if b3 then then_do (grid_at g r c) (\<lambda>p. Inr (upd g p (\<lambda>x. set_walkable x True)))
           else then_do (if is_creating_blocks g then able_to_create_blocks g r c
                         else Inr False) (\<lambda>b4.
             if b4 then then_do (grid_at g r c) (\<lambda>p. Inr (upd g p (\<lambda>x. set_walkable x False)))
             else Inr g))))"

definition handle_mouse_button_down_events :: "grid \<Rightarrow> int \<Rightarrow> int \<Rightarrow> error + grid" where
  "handle_mouse_button_down_events g r c =
     then_do (and_not_flag_node (erase_block_on g) g r c) (\<lambda>b1.
       if b1 then Inr (g\<lparr>is_erasing_blocks := True\<rparr>)
       else then_do (grid_at g r c) (\<lambda>p.
         if is_start_node (deref g p) then Inr (g\<lparr>dragging_start_flag := True\<rparr>)
         else if is_end_node (deref g p) then Inr (g\<lparr>dragging_end_flag := True\<rparr>)
         else then_do (able_to_create_blocks g r c) (\<lambda>b4.
           if b4 then Inr ((upd g p (\<lambda>x. set_walkable x False))\<lparr>is_creating_blocks := True\<rparr>)
           else Inr g)))"

definition handle_mouse_button_up_events :: "grid \<Rightarrow> grid" where
  "handle_mouse_button_up_events g =
     (if dragging_start_flag g then g\<lparr>dragging_start_flag := False\<rparr>
      else if dragging_end_flag g then g\<lparr>dragging_end_flag := False\<rparr>
      else if is_creating_blocks g then g\<lparr>is_creating_blocks := False\<rparr>
      else if is_erasing_blocks g then g\<lparr>is_erasing_blocks := False\<rparr>
      else g)"

text \<open>
  The user events that edit the grid: the three mouse events, and the keys \<open>c\<close>
  (\<open>self._reset()\<close>, whose argument defaults to \<open>True\<close>) and \<open>e\<close>.
\<close>

datatype event = MouseButtonDown int int | MouseMotion int int | MouseButtonUp | KeyC | KeyE

fun handle_user_events :: "grid \<Rightarrow> event \<Rightarrow> error + grid" where
  "handle_user_events g (MouseButtonDown r c) = handle_mouse_button_down_events g r c"
| "handle_user_events g (MouseMotion r c) = handle_mouse_motions_events g r c"
| "handle_user_events g MouseButtonUp = Inr (handle_mouse_button_up_events g)"
| "handle_user_events g KeyC = Inr (reset g True)"
| "handle_user_events g KeyE =
     Inr (g\<lparr>erase_block_on := \<not> erase_block_on g, is_creating_blocks := False\<rparr>)"

fun handle_events :: "grid \<Rightarrow> event list \<Rightarrow> error + grid" where
  "handle_events g [] = Inr g"
| "handle_events g (e # es) = then_do (handle_user_events g e) (\<lambda>g'. handle_events g' es)"

section \<open>References into the grid\<close>

text \<open>A reference names a cell of the grid when both of its indices are in range.\<close>

definition in_grid :: "grid \<Rightarrow> ref \<Rightarrow> bool" where
  "in_grid g p \<longleftrightarrow> fst p < length (cells g) \<and> snd p < length (cells g ! fst p)"

text \<open>
  The list of lists has the dimensions the grid records in \<open>self._rows\<close> and
  \<open>self._cols\<close>.
\<close>

definition grid_shape :: "grid \<Rightarrow> bool" where
  "grid_shape g \<longleftrightarrow>
     length (cells g) = nat (rows g) \<and> (\<forall>r \<in> set (cells g). length r = nat (cols g))"

text \<open>
  The position at an offset from a cell, and the test \<open>add_valid_neighbor\<close> makes of
  it.
\<close>

definition candidate :: "cell \<Rightarrow> int \<times> int \<Rightarrow> ref" where
  "candidate cell d = (nat (row cell + fst d), nat (col cell + snd d))"

definition admissible :: "grid \<Rightarrow> cell \<Rightarrow> int \<times> int \<Rightarrow> bool" where
  "admissible g cell d \<longleftrightarrow>
     is_valid_coordinate g (row cell + fst d) (col cell + snd d) \<and>
     walkable (deref g (candidate cell d))"

section \<open>Concrete grids\<close>

text \<open>The grid of one row and two columns: start at \<open>(0, 0)\<close>, end at \<open>(0, 1)\<close>.\<close>

definition grid_1x2 :: grid where
  "grid_1x2 = (case Grid_init 1 2 of Inr g \<Rightarrow> g)"

text \<open>
  The same grid after one search: the loop runs one full iteration (the start cell) and
  returns in the second (the end cell).
\<close>

definition searched_1x2 :: grid where
  "searched_1x2 =
     (case loop_prefix 1 (search_setup grid_1x2) of
        Some st \<Rightarrow> (case loop_body st of Return st' \<Rightarrow> sgrid st'))"

text \<open>A blocked cell: a fresh cell whose \<open>walkable\<close> was set to \<open>False\<close>.\<close>

definition block_cell :: cell where
  "block_cell = set_walkable (Cell_init 0 0) False"

text \<open>
  The grid of two rows and two columns, start at \<open>(0, 0)\<close> and end at \<open>(1, 1)\<close>,
  with a block at \<open>(0, 1)\<close>.
\<close>

definition grid_2x2 :: grid where
  "grid_2x2 = (case Grid_init 2 2 of Inr g \<Rightarrow> upd g (0, 1) (\<lambda>c. set_walkable c False))"

section \<open>Basic facts\<close>

lemma Cell_init_simps:
  "Cell_init r c = \<lparr>was_block = False, row = r, col = c, f_score = PInf, g_score = PInf,
                 last_node = None, walkable = True, color = white,
                 is_start_node = False, is_end_node = False\<rparr>"
  by (simp add: Cell_init_def set_walkable_def set_color_def set_is_start_node_def
      set_is_end_node_def white_def)

lemma deref_upd:
  "in_grid g p \<Longrightarrow> deref (upd g p f) q = (if q = p then f (deref g p) else deref g q)"
  by (cases p; cases q) (auto simp: in_grid_def deref_def upd_def nth_list_update)

lemma in_grid_upd [simp]: "in_grid (upd g p f) q = in_grid g q"
proof (cases "fst q = fst p \<and> fst p < length (cells g)")
  case True
  then show ?thesis by (simp add: in_grid_def upd_def)
next
  case False
  then show ?thesis by (auto simp: in_grid_def upd_def)
qed

lemma upd_fields [simp]:
  "rows (upd g p f) = rows g" "cols (upd g p f) = cols g"
  "start_node (upd g p f) = start_node g" "end_node (upd g p f) = end_node g"
  "running (upd g p f) = running g"
  by (simp_all add: upd_def)

lemma deref_reset: "in_grid g p \<Longrightarrow> deref (reset g b) p = reset_cell b (deref g p)"
  by (simp add: in_grid_def deref_def reset_def)

lemma in_grid_reset [simp]: "in_grid (reset g b) p = in_grid g p"
  by (auto simp: in_grid_def reset_def)

lemma reconstruct_path_None: "reconstruct_path g None = Some g"
  by (simp add: reconstruct_path.simps)

lemma reconstruct_path_Some:
  "reconstruct_path g (Some p) =
     reconstruct_path
       (upd g p (\<lambda>c. set_color c (if \<not> is_start_node c then (47, 234, 247) else color c)))
       (last_node (deref g p))"
  by (subst reconstruct_path.simps) simp

text \<open>The equations that evaluate a search on a concrete grid.\<close>

lemmas eval_simps =
  upd_def deref_def Let_def set_is_start_node_def set_is_end_node_def set_color_def
  reset_def reset_cell_def set_walkable_def white_def black_def
  search_setup_def set_up_flag_nodes_def heappush_def siftdown_def siftdown_loop.simps
  compute_diagonal_distance_def grid_at_def py_index_def
  loop_body_def pop_current_def expand_def then_do_def heappop_def siftup_def
  siftup_loop.simps find_neighbors_def add_valid_neighbor_def is_valid_coordinate_def
  visit_neighbor_def is_optimal_neighbor_def ref_lt_def cell_lt_def at_end_node_def
  reconstruct_path_None reconstruct_path_Some

lemma grid_1x2_eq:
  "grid_1x2 = \<lparr>running = True, rows = 1, cols = 2,
    cells =
      [[\<lparr>was_block = False, row = 0, col = 0, f_score = PInf,
           g_score = PInf, last_node = None, walkable = True,
           color = (106, 255, 20), is_start_node = True,
           is_end_node = False\<rparr>,
        \<lparr>was_block = False, row = 0, col = 1, f_score = PInf,
           g_score = PInf, last_node = None, walkable = True,
           color = (247, 241, 47), is_start_node = False,
           is_end_node = True\<rparr>]],
    start_node = (0, 0), end_node = (0, 1), erase_block_on = False,
    is_creating_blocks = False, is_erasing_blocks = False,
    dragging_start_flag = False, dragging_end_flag = False,
    disable_events = False\<rparr>"
  by (simp add: grid_1x2_def Grid_init_def grid_at_def py_index_def create_grid_def
      Cell_init_simps upd_def deref_def Let_def set_is_start_node_def set_is_end_node_def
      set_color_def upt_rec white_def)

lemma searched_1x2_eq:
  "searched_1x2 = \<lparr>running = True, rows = 1, cols = 2,
    cells =
      [[\<lparr>was_block = False, row = 0, col = 0, f_score = Num 1,
           g_score = Num 0, last_node = None, walkable = True,
           color = (106, 255, 20), is_start_node = True,
           is_end_node = False\<rparr>,
        \<lparr>was_block = False, row = 0, col = 1, f_score = Num 1,
           g_score = Num 1, last_node = Some (0, 0), walkable = True,
           color = (247, 241, 47), is_start_node = False,
           is_end_node = True\<rparr>]],
    start_node = (0, 0), end_node = (0, 1), erase_block_on = False,
    is_creating_blocks = False, is_erasing_blocks = False,
    dragging_start_flag = False, dragging_end_flag = False,
    disable_events = False\<rparr>"
  by (simp add: searched_1x2_def grid_1x2_eq eval_simps)

section \<open>Resetting the grid\<close>

text \<open>
  C1, as the specification states it, fails on the grid a search leaves behind: after
  \<open>reset\<close> with \<open>clear_blocks = false\<close> the start cell still has the \<open>g_score\<close>
  0 of that search, not infinity.
\<close>

theorem reset_keeps_g_score_counterexample:
  "g_score (deref (reset searched_1x2 False) (0, 0)) \<noteq> PInf"
  by (simp add: searched_1x2_eq eval_simps)

text \<open>
  C1, as the code has it.  For every grid and every cell of it, start and end included,
  \<open>reset\<close> sets the predecessor to none and leaves \<open>g_score\<close>, \<open>f_score\<close> and the
  two roles as they are.  A cell that is neither start nor end is walkable afterwards
  when \<open>clear_blocks\<close> is true and keeps its walkability when it is false; the start
  and the end cell keep theirs.
\<close>

theorem reset_clears_predecessor_only:
  assumes "in_grid g p"
  shows "last_node (deref (reset g clear_blocks) p) = None \<and>
         g_score (deref (reset g clear_blocks) p) = g_score (deref g p) \<and>
         f_score (deref (reset g clear_blocks) p) = f_score (deref g p) \<and>
         is_start_node (deref (reset g clear_blocks) p) = is_start_node (deref g p) \<and>
         is_end_node (deref (reset g clear_blocks) p) = is_end_node (deref g p) \<and>
         walkable (deref (reset g clear_blocks) p) =
           (if is_start_node (deref g p) \<or> is_end_node (deref g p) then walkable (deref g p)
            else clear_blocks \<or> walkable (deref g p))"
  using assms
  by (simp add: deref_reset reset_cell_def set_walkable_def set_color_def Let_def)

theorem reset_clears_predecessor_only_witness:
  "in_grid searched_1x2 (0, 1) \<and>
   last_node (deref searched_1x2 (0, 1)) = Some (0, 0) \<and>
   last_node (deref (reset searched_1x2 False) (0, 1)) = None \<and>
   g_score (deref (reset searched_1x2 False) (0, 1)) = Num 1 \<and>
   f_score (deref (reset searched_1x2 False) (0, 1)) = Num 1 \<and>
   is_end_node (deref (reset searched_1x2 False) (0, 1)) \<and>
   walkable (deref (reset searched_1x2 False) (0, 1))"
proof -
  have h: "in_grid searched_1x2 (0, 1)"
    by (simp add: searched_1x2_eq in_grid_def)
  have v: "deref searched_1x2 (0, 1) =
     \<lparr>was_block = False, row = 0, col = 1, f_score = Num 1,
           g_score = Num 1, last_node = Some (0, 0), walkable = True,
           color = (247, 241, 47), is_start_node = False,
           is_end_node = True\<rparr>"
    by (simp add: searched_1x2_eq deref_def)
  show ?thesis
    using h v reset_clears_predecessor_only [OF h, of False] by simp
qed

section \<open>Roles and walkability of a cell\<close>

text \<open>
  C2, as the specification states it, fails on a blocked cell: made the start cell, it
  is still not walkable.
\<close>

theorem start_role_keeps_block_counterexample:
  "\<not> walkable block_cell \<and> \<not> walkable (set_is_start_node block_cell True)"
  by (simp add: block_cell_def Cell_init_simps set_walkable_def set_is_start_node_def
      set_color_def)

text \<open>
  C2, as the code has it.  For every cell, assigning the Start or the End role remembers
  whether the cell is a block (\<open>was_block\<close> becomes the negation of \<open>walkable\<close>) and
  leaves \<open>walkable\<close> as it is; clearing the role leaves \<open>walkable\<close> as it is as well
  and restores the colour from the remembered value: black for a block, white otherwise.
\<close>

theorem role_setters_leave_walkable:
  "was_block (set_is_start_node c True) = (\<not> walkable c) \<and>
   walkable (set_is_start_node c True) = walkable c \<and>
   was_block (set_is_end_node c True) = (\<not> walkable c) \<and>
   walkable (set_is_end_node c True) = walkable c \<and>
   walkable (set_is_start_node c False) = walkable c \<and>
   walkable (set_is_end_node c False) = walkable c \<and>
   color (set_is_start_node c False) = (if was_block c then black else white) \<and>
   color (set_is_end_node c False) = (if was_block c then black else white)"
  by (simp add: set_is_start_node_def set_is_end_node_def set_color_def)

section \<open>The heuristic\<close>

text \<open>
  C5, as the specification states it, fails for the start cell of the grid of one row and
  two columns: the code's estimate to the end cell is 1, the specification's formula
  gives 10.
\<close>

theorem estimate_not_scaled_counterexample:
  "compute_diagonal_distance grid_1x2 (deref grid_1x2 (0, 0)) = 1 \<and>
   spec_estimate (deref grid_1x2 (0, 0)) (deref grid_1x2 (end_node grid_1x2)) = 10"
  by (simp add: grid_1x2_eq compute_diagonal_distance_def spec_estimate_def deref_def)

text \<open>
  C5, as the code has it.  For every cell \<open>a\<close>, the estimate to the end cell \<open>b\<close> of the
  grid is \<open>min dx dy * sqrt 2 + |dx - dy|\<close> with \<open>dx = |a.row - b.row|\<close> and
  \<open>dy = |a.col - b.col|\<close>, without a scale factor: one tenth of the specification's
  formula.  The movement cost is 10 for an orthogonally adjacent cell and 14 for any
  other.
\<close>

theorem estimate_is_unscaled_diagonal_distance:
  "compute_diagonal_distance g a =
     real_of_int (min \<bar>row a - row (deref g (end_node g))\<bar> \<bar>col a - col (deref g (end_node g))\<bar>)
       * sqrt 2
     + real_of_int \<bar>\<bar>row a - row (deref g (end_node g))\<bar> - \<bar>col a - col (deref g (end_node g))\<bar>\<bar> \<and>
   10 * compute_diagonal_distance g a = spec_estimate a (deref g (end_node g)) \<and>
   get_weight_score a b = (if is_node_next_to_current_node a b then 10 else 14)"
  by (simp add: compute_diagonal_distance_def spec_estimate_def get_weight_score_def Let_def)

section \<open>Neighbours\<close>

lemma grid_2x2_eq:
  "grid_2x2 = \<lparr>running = True, rows = 2, cols = 2,
     cells =
       [[\<lparr>was_block = False, row = 0, col = 0, f_score = PInf,
            g_score = PInf, last_node = None, walkable = True,
            color = (106, 255, 20), is_start_node = True,
            is_end_node = False\<rparr>,
         \<lparr>was_block = False, row = 0, col = 1, f_score = PInf,
            g_score = PInf, last_node = None, walkable = False,
            color = (0, 0, 0), is_start_node = False,
            is_end_node = False\<rparr>],
        [\<lparr>was_block = False, row = 1, col = 0, f_score = PInf,
            g_score = PInf, last_node = None, walkable = True,
            color = (255, 255, 255), is_start_node = False,
            is_end_node = False\<rparr>,
         \<lparr>was_block = False, row = 1, col = 1, f_score = PInf,
            g_score = PInf, last_node = None, walkable = True,
            color = (247, 241, 47), is_start_node = False,
            is_end_node = True\<rparr>]],
     start_node = (0, 0), end_node = (1, 1),
     erase_block_on = False, is_creating_blocks = False,
     is_erasing_blocks = False, dragging_start_flag = False,
     dragging_end_flag = False, disable_events = False\<rparr>"
  by (simp add: grid_2x2_def Grid_init_def grid_at_def py_index_def create_grid_def
      Cell_init_simps upd_def deref_def Let_def set_is_start_node_def set_is_end_node_def
      set_color_def set_walkable_def upt_rec white_def black_def)

lemma grid_shape_2x2: "grid_shape grid_2x2"
  by (simp add: grid_2x2_eq grid_shape_def)

lemma grid_at_valid:
  assumes "grid_shape g" "is_valid_coordinate g r c"
  shows "grid_at g r c = Inr (nat r, nat c)" and "in_grid g (nat r, nat c)"
proof -
  from assms have r: "nat r < length (cells g)" and r0: "0 \<le> r" "r < int (length (cells g))"
    by (auto simp: grid_shape_def is_valid_coordinate_def)
  then have "cells g ! nat r \<in> set (cells g)" by simp
  with assms have c: "nat c < length (cells g ! nat r)" "0 \<le> c"
      "c < int (length (cells g ! nat r))"
    by (auto simp: grid_shape_def is_valid_coordinate_def)
  show "grid_at g r c = Inr (nat r, nat c)"
    using r0 c by (simp add: grid_at_def py_index_def Let_def)
  show "in_grid g (nat r, nat c)" using r c by (simp add: in_grid_def)
qed

lemma add_valid_neighbor_eq:
  assumes "grid_shape g"
  shows "add_valid_neighbor g r c ns =
     Inr (if is_valid_coordinate g r c \<and> walkable (deref g (nat r, nat c))
          then ns @ [(nat r, nat c)] else ns)"
  using grid_at_valid(1) [OF assms] by (simp add: add_valid_neighbor_def then_do_def)

lemma add_valid_neighbor_offset:
  assumes "grid_shape g"
  shows "add_valid_neighbor g (row cell + dr) (col cell + dc) ns =
     Inr (ns @ map (candidate cell) (filter (admissible g cell) [(dr, dc)]))"
  by (simp add: add_valid_neighbor_eq [OF assms] candidate_def admissible_def)

lemma find_neighbors_eq:
  assumes "grid_shape g"
  shows "find_neighbors g cell = Inr (map (candidate cell) (filter (admissible g cell) offsets))"
proof -
  have split: "map f (filter P (d # ds)) = map f (filter P [d]) @ map f (filter P ds)"
    for f :: "int \<times> int \<Rightarrow> ref" and P d ds
    by simp
  have a: "add_valid_neighbor g (row cell + dr) (col cell + dc) ns =
     Inr (ns @ map (candidate cell) (filter (admissible g cell) [(dr, dc)]))" for dr dc ns
    by (rule add_valid_neighbor_offset [OF assms])
  have b: "add_valid_neighbor g (row cell) (col cell + dc) ns =
     Inr (ns @ map (candidate cell) (filter (admissible g cell) [(0, dc)]))" for dc ns
    using a [of 0 dc ns] by simp
  have c: "add_valid_neighbor g (row cell + dr) (col cell) ns =
     Inr (ns @ map (candidate cell) (filter (admissible g cell) [(dr, 0)]))" for dr ns
    using a [of dr 0 ns] by simp
  have d: "add_valid_neighbor g (row cell - 1) (col cell) ns =
     Inr (ns @ map (candidate cell) (filter (admissible g cell) [(- 1, 0)]))" for ns
    using a [of "- 1" 0 ns] by simp
  have e: "add_valid_neighbor g (row cell) (col cell - 1) ns =
     Inr (ns @ map (candidate cell) (filter (admissible g cell) [(0, - 1)]))" for ns
    using a [of 0 "- 1" ns] by simp
  have f: "add_valid_neighbor g (row cell - 1) (col cell + dc) ns =
     Inr (ns @ map (candidate cell) (filter (admissible g cell) [(- 1, dc)]))" for dc ns
    using a [of "- 1" dc ns] by simp
  have h: "add_valid_neighbor g (row cell + dr) (col cell - 1) ns =
     Inr (ns @ map (candidate cell) (filter (admissible g cell) [(dr, - 1)]))" for dr ns
    using a [of dr "- 1" ns] by simp
  have i: "add_valid_neighbor g (row cell - 1) (col cell - 1) ns =
     Inr (ns @ map (candidate cell) (filter (admissible g cell) [(- 1, - 1)]))" for ns
    using a [of "- 1" "- 1" ns] by simp
  have t: "then_do (Inr x) k = k x"
    for x :: "ref list" and k :: "ref list \<Rightarrow> error + ref list"
    by (simp add: then_do_def)
  have "find_neighbors g cell =
     Inr (map (candidate cell) (filter (admissible g cell) [(1, 1)]) @
          map (candidate cell) (filter (admissible g cell) [(0, 1)]) @
          map (candidate cell) (filter (admissible g cell) [(0, - 1)]) @
          map (candidate cell) (filter (admissible g cell) [(- 1, 1)]) @
          map (candidate cell) (filter (admissible g cell) [(- 1, 0)]) @
          map (candidate cell) (filter (admissible g cell) [(1, 0)]) @
          map (candidate cell) (filter (admissible g cell) [(1, - 1)]) @
          map (candidate cell) (filter (admissible g cell) [(- 1, - 1)]))"
    unfolding find_neighbors_def a b c d e f h i t by (simp only: append_Nil append_assoc)
  also have "\<dots> = Inr (map (candidate cell) (filter (admissible g cell) offsets))"
    unfolding offsets_def
    by (simp only: split [of _ _ _ "_ # _"] sum.inject)
  finally show ?thesis .
qed

lemma offsets_iff:
  "(a, b) \<in> set offsets \<longleftrightarrow>
     (a = -1 \<or> a = 0 \<or> a = 1) \<and> (b = -1 \<or> b = 0 \<or> b = 1) \<and> \<not> (a = 0 \<and> b = 0)"
  unfolding offsets_def by (simp del: One_nat_def) presburger

lemma find_neighbors_in_grid:
  assumes "grid_shape g" "find_neighbors g cell = Inr ns" "p \<in> set ns"
  shows "in_grid g p \<and> int (fst p) < rows g \<and> int (snd p) < cols g \<and> walkable (deref g p) \<and>
         (\<exists>d \<in> set offsets. int (fst p) = row cell + fst d \<and> int (snd p) = col cell + snd d)"
proof -
  from assms(2,3) find_neighbors_eq [OF assms(1), of cell]
  obtain d where d: "d \<in> set offsets" "admissible g cell d" "p = candidate cell d" by auto
  then have v: "is_valid_coordinate g (row cell + fst d) (col cell + snd d)"
    by (simp add: admissible_def)
  from grid_at_valid(2) [OF assms(1) v] d v show ?thesis
    by (auto simp: candidate_def admissible_def is_valid_coordinate_def)
qed

text \<open>
  C6.  On a grid whose list of lists has the recorded dimensions, the neighbour query of
  any cell raises no error and returns the candidates at the eight offsets, in the fixed
  order of \<open>offsets\<close>, that are inside the bounds and walkable: at most 8 cells, each
  inside the bounds and walkable, none of the admissible candidates missing.  The eight
  offsets are the positions one step away in every compass direction.
\<close>

theorem neighbors_of_cell:
  assumes "grid_shape g"
  shows "\<exists>ns. find_neighbors g cell = Inr ns \<and>
           ns = map (candidate cell) (filter (admissible g cell) offsets) \<and>
           length ns \<le> 8 \<and>
           (\<forall>p \<in> set ns. in_grid g p \<and> int (fst p) < rows g \<and> int (snd p) < cols g \<and>
                           walkable (deref g p)) \<and>
           (\<forall>d \<in> set offsets. admissible g cell d \<longrightarrow> candidate cell d \<in> set ns) \<and>
           (\<forall>a b. (a, b) \<in> set offsets \<longleftrightarrow>
              (a = -1 \<or> a = 0 \<or> a = 1) \<and> (b = -1 \<or> b = 0 \<or> b = 1) \<and> \<not> (a = 0 \<and> b = 0))"
proof -
  let ?ns = "map (candidate cell) (filter (admissible g cell) offsets)"
  have 1: "find_neighbors g cell = Inr ?ns" by (rule find_neighbors_eq [OF assms])
  have "length ?ns \<le> length offsets" by simp
  then have 2: "length ?ns \<le> 8" by (simp add: offsets_def)
  have 3: "in_grid g p \<and> int (fst p) < rows g \<and> int (snd p) < cols g \<and> walkable (deref g p)"
    if "p \<in> set ?ns" for p
    using find_neighbors_in_grid [OF assms 1 that] by simp
  have 4: "\<forall>d \<in> set offsets. admissible g cell d \<longrightarrow> candidate cell d \<in> set ?ns"
    by simp
  show ?thesis
  proof (intro exI conjI)
    show "find_neighbors g cell = Inr ?ns" by (rule 1)
    show "?ns = map (candidate cell) (filter (admissible g cell) offsets)" by (rule refl)
    show "length ?ns \<le> 8" by (rule 2)
    show "\<forall>p \<in> set ?ns. in_grid g p \<and> int (fst p) < rows g \<and> int (snd p) < cols g \<and>
                           walkable (deref g p)"
      using 3 by (intro ballI)
    show "\<forall>d \<in> set offsets. admissible g cell d \<longrightarrow> candidate cell d \<in> set ?ns"
      by (rule 4)
    show "\<forall>a b. (a, b) \<in> set offsets \<longleftrightarrow>
              (a = -1 \<or> a = 0 \<or> a = 1) \<and> (b = -1 \<or> b = 0 \<or> b = 1) \<and> \<not> (a = 0 \<and> b = 0)"
      by (intro allI offsets_iff)
  qed
qed

theorem neighbors_of_cell_witness:
  "grid_shape grid_2x2 \<and>
   find_neighbors grid_2x2 (deref grid_2x2 (0, 0)) = Inr [(1, 1), (1, 0)]"
proof -
  have h: "grid_shape grid_2x2" by (rule grid_shape_2x2)
  from neighbors_of_cell [OF h, of "deref grid_2x2 (0, 0)"]
  obtain ns where ns: "find_neighbors grid_2x2 (deref grid_2x2 (0, 0)) = Inr ns"
    "ns = map (candidate (deref grid_2x2 (0, 0)))
            (filter (admissible grid_2x2 (deref grid_2x2 (0, 0))) offsets)"
    by blast
  have "ns = [(1, 1), (1, 0)]"
    unfolding ns(2)
    by (simp add: grid_2x2_eq offsets_def admissible_def candidate_def deref_def
        is_valid_coordinate_def)
  with ns(1) h show ?thesis by simp
qed

text \<open>
  C10.  A coordinate is valid exactly when \<open>0 \<le> row < rows\<close> and
  \<open>0 \<le> col < cols\<close>; a candidate position with a negative row or column adds
  nothing to the neighbours, although indexing the lists at it would resolve to a cell
  on the opposite edge; and every neighbour returned lies exactly at one of the eight
  offsets from the cell, so nothing wraps around.
\<close>

theorem border_neighbors_do_not_wrap:
  assumes "grid_shape g"
  shows "(is_valid_coordinate g r c \<longleftrightarrow> 0 \<le> r \<and> r < rows g \<and> 0 \<le> c \<and> c < cols g) \<and>
         (r < 0 \<or> c < 0 \<longrightarrow> add_valid_neighbor g r c ns = Inr ns) \<and>
         (\<forall>ms. find_neighbors g cell = Inr ms \<longrightarrow>
            (\<forall>p \<in> set ms. \<exists>d \<in> set offsets.
               int (fst p) = row cell + fst d \<and> int (snd p) = col cell + snd d))"
proof (intro conjI allI impI ballI)
  show "is_valid_coordinate g r c \<longleftrightarrow> 0 \<le> r \<and> r < rows g \<and> 0 \<le> c \<and> c < cols g"
    by (auto simp: is_valid_coordinate_def)
next
  assume "r < 0 \<or> c < 0"
  then have "\<not> is_valid_coordinate g r c" by (auto simp: is_valid_coordinate_def)
  then show "add_valid_neighbor g r c ns = Inr ns" by (simp add: add_valid_neighbor_def)
next
  fix ms p
  assume "find_neighbors g cell = Inr ms" "p \<in> set ms"
  from find_neighbors_in_grid [OF assms this]
  show "\<exists>d \<in> set offsets. int (fst p) = row cell + fst d \<and> int (snd p) = col cell + snd d"
    by simp
qed

theorem border_neighbors_do_not_wrap_witness:
  "grid_shape grid_2x2 \<and>
   grid_at grid_2x2 (- 1) (- 1) = Inr (1, 1) \<and>
   walkable (deref grid_2x2 (1, 1)) \<and>
   \<not> is_valid_coordinate grid_2x2 (- 1) (- 1) \<and>
   add_valid_neighbor grid_2x2 (- 1) (- 1) [] = Inr []"
proof -
  have h: "grid_shape grid_2x2" by (rule grid_shape_2x2)
  have i: "grid_at grid_2x2 (- 1) (- 1) = Inr (1, 1)"
    by (simp add: grid_2x2_eq grid_at_def py_index_def)
  have w: "walkable (deref grid_2x2 (1, 1))"
    by (simp add: grid_2x2_eq deref_def)
  from border_neighbors_do_not_wrap [OF h, of "- 1" "- 1" "[]"]
  have "\<not> is_valid_coordinate grid_2x2 (- 1) (- 1) \<and>
        add_valid_neighbor grid_2x2 (- 1) (- 1) [] = Inr []"
    by simp
  with h i w show ?thesis by simp
qed

end
